theory Spec2Isabelle
  imports Main "HOL-Library.Sublist"
begin

section \<open>The host: paths, the directory tree, the mkdir primitive\<close>

text \<open>
  The three scripts of the repository (\<^verbatim>\<open>create_dirs.py\<close>, \<^verbatim>\<open>create_structure.py\<close>,
  \<^verbatim>\<open>create_test_dirs.py\<close>) call four things of the Python library and nothing else:
  \<^verbatim>\<open>os.path.join\<close>, \<^verbatim>\<open>os.makedirs\<close>, \<^verbatim>\<open>print\<close> and \<^verbatim>\<open>sys.exit\<close>. This section
  fixes the model of the host they run on.

  A path is the list of its directory names, read from the root of the name space:
  \<^verbatim>\<open>C:\Users\anupa\copilot-hackathon\<close> is the list of the four names \<^verbatim>\<open>C:\<close>, \<^verbatim>\<open>Users\<close>,
  \<^verbatim>\<open>anupa\<close>, \<^verbatim>\<open>copilot-hackathon\<close>. Names are plain names: the model has no reading
  of \<^verbatim>\<open>.\<close> or \<^verbatim>\<open>..\<close>, no symbolic links and no case folding. \<open>path_str\<close> writes a
  path back as the host does, with the backslash of the scripts' literals between names.
  An entry of a list is a relative path of at least one name, as all entries of the
  scripts are: for an empty entry the host's join would end in a separator, which a list
  of names does not show.
\<close>

type_synonym path = "string list"

definition os_sep :: char where
  "os_sep = CHR 0x5C"

fun path_str :: "path \<Rightarrow> string" where
  "path_str [] = []"
| "path_str [n] = n"
| "path_str (n # m # ms) = n @ [os_sep] @ path_str (m # ms)"

text \<open>
  \<^verbatim>\<open>os.path.join(base_path, directory)\<close> with a relative second argument: the names of
  \<open>directory\<close> follow those of \<open>base_path\<close>.
\<close>

definition os_path_join :: "path \<Rightarrow> path \<Rightarrow> path" where
  "os_path_join a b = a @ b"

text \<open>
  The directory tree is a finite table from paths to nodes. A node is a regular file with
  its content, or a directory with the flag that says whether the process may create
  entries in it. The root is the empty path.
\<close>

datatype node = File string | Dir bool

type_synonym filesystem = "(path \<times> node) list"

definition stat :: "filesystem \<Rightarrow> path \<Rightarrow> node option" where
  "stat fs p = map_of fs p"

definition path_exists :: "filesystem \<Rightarrow> path \<Rightarrow> bool" where
  "path_exists fs p = (case stat fs p of None \<Rightarrow> False | Some n \<Rightarrow> True)"

definition path_isdir :: "filesystem \<Rightarrow> path \<Rightarrow> bool" where
  "path_isdir fs p = (case stat fs p of Some (Dir w) \<Rightarrow> True | _ \<Rightarrow> False)"

text \<open>
  A table is a tree when the root is a directory and every entry below the root lies in
  a directory.
\<close>

definition wf_fs :: "filesystem \<Rightarrow> bool" where
  "wf_fs fs = (path_isdir fs [] \<and>
               list_all (\<lambda>(p, n). p = [] \<or> path_isdir fs (butlast p)) fs)"

text \<open>
  The errors of the directory-creation primitive, with the path they are raised for. They
  are the subclasses of Python's \<^verbatim>\<open>OSError\<close> that \<^verbatim>\<open>os.mkdir\<close> raises.
\<close>

datatype os_error =
    FileExistsError path
  | FileNotFoundError path
  | NotADirectoryError path
  | PermissionError path

fun is_FileExistsError :: "os_error \<Rightarrow> bool" where
  "is_FileExistsError (FileExistsError p) = True"
| "is_FileExistsError e = False"

text \<open>
  \<^verbatim>\<open>os.mkdir(name)\<close>: the host first walks to the parent, then looks at the name, then
  at the permission. A new directory is one the process may write to. A failing call
  changes nothing.
\<close>

definition mkdir :: "path \<Rightarrow> filesystem \<Rightarrow> os_error + filesystem" where
  "mkdir name fs =
     (if name = [] then Inl (FileExistsError name)
      else case stat fs (butlast name) of
             None \<Rightarrow> Inl (FileNotFoundError name)
           | Some (File c) \<Rightarrow> Inl (NotADirectoryError name)
           | Some (Dir w) \<Rightarrow>
               (if path_exists fs name then Inl (FileExistsError name)
                else if \<not> w then Inl (PermissionError name)
                else Inr ((name, Dir True) # fs)))"

section \<open>The library routine os.makedirs\<close>

text \<open>
  The body of \<^verbatim>\<open>os.makedirs(name, exist_ok)\<close> of the Python library:
  \<^verbatim>\<open>
    head, tail = path.split(name)
    if not tail:
        head, tail = path.split(head)
    if head and tail and not path.exists(head):
        try:
            makedirs(head, exist_ok=exist_ok)
        except FileExistsError:
            pass
    try:
        mkdir(name, mode)
    except OSError:
        if not exist_ok or not path.isdir(name):
            raise
  \<close>
  On a list of names \<open>head\<close> is \<open>butlast name\<close>, and \<open>tail\<close> is empty for the root only.
  Between the two \<^verbatim>\<open>try\<close> statements the library returns early when \<open>tail\<close> is the
  name \<^verbatim>\<open>.\<close>; plain names leave that branch out. The result is the exception that leaves
  the call, if any, and the tree as the call left it: the guarded \<^verbatim>\<open>mkdir\<close> is
  \<open>mkdir_guarded\<close>, the guarded recursive call is the case distinction in \<open>makedirs\<close>.
\<close>

definition mkdir_guarded :: "path \<Rightarrow> bool \<Rightarrow> filesystem \<Rightarrow> os_error option \<times> filesystem" where
  "mkdir_guarded name exist_ok fs =
     (case mkdir name fs of
        Inr fs' \<Rightarrow> (None, fs')
      | Inl e \<Rightarrow> (if \<not> exist_ok \<or> \<not> path_isdir fs name then (Some e, fs) else (None, fs)))"

function makedirs :: "path \<Rightarrow> bool \<Rightarrow> filesystem \<Rightarrow> os_error option \<times> filesystem" where
  "makedirs name exist_ok fs =
     (if name \<noteq> [] \<and> \<not> path_exists fs (butlast name)
      then (case makedirs (butlast name) exist_ok fs of
              (None, fs1) \<Rightarrow> mkdir_guarded name exist_ok fs1
            | (Some e, fs1) \<Rightarrow>
                (if is_FileExistsError e then mkdir_guarded name exist_ok fs1
                 else (Some e, fs1)))
      else mkdir_guarded name exist_ok fs)"
  by pat_completeness auto
termination
  by (relation "measure (\<lambda>(name, exist_ok, fs). length name)") auto

declare makedirs.simps [simp del]

section \<open>The scripts\<close>

text \<open>
  What a script sees and changes: the directory tree and the lines it has printed.
  \<^verbatim>\<open>print\<close> adds one line to \<open>stdout\<close>; the traceback of an uncaught exception goes
  to the error stream and is not a line of \<open>stdout\<close>.
\<close>

record process =
  files :: filesystem
  stdout :: "string list"

text \<open>
  A Python exception is a value. \<^verbatim>\<open>SystemExit\<close>, which \<^verbatim>\<open>sys.exit\<close> raises, derives
  from \<^verbatim>\<open>BaseException\<close> and not from \<^verbatim>\<open>Exception\<close>; \<^verbatim>\<open>OSError\<close> derives from
  \<^verbatim>\<open>Exception\<close>.
\<close>

datatype exception = OSError os_error | SystemExit int

fun isinstance_Exception :: "exception \<Rightarrow> bool" where
  "isinstance_Exception (OSError e) = True"
| "isinstance_Exception (SystemExit n) = False"

type_synonym outcome = "exception option \<times> process"

definition print :: "string \<Rightarrow> process \<Rightarrow> process" where
  "print line s = s\<lparr>stdout := stdout s @ [line]\<rparr>"

definition sys_exit :: "int \<Rightarrow> process \<Rightarrow> outcome" where
  "sys_exit n s = (Some (SystemExit n), s)"

text \<open>
  The status the interpreter hands to the calling environment: 0 when the script runs off
  its end, the argument of \<^verbatim>\<open>sys.exit\<close>, and 1 after the traceback of an exception
  nobody caught.
\<close>

fun exit_status :: "exception option \<Rightarrow> int" where
  "exit_status None = 0"
| "exit_status (Some (SystemExit n)) = n"
| "exit_status (Some (OSError e)) = 1"

fun traceback :: "exception option \<Rightarrow> bool" where
  "traceback (Some (OSError e)) = True"
| "traceback r = False"

text \<open>
  The loop shared by the three scripts:
  \<^verbatim>\<open>
    for directory in directories:
        full_path = os.path.join(base_path, directory)
        os.makedirs(full_path, exist_ok=True)
        print(f'Created: {full_path}')
  \<close>
\<close>

fun for_directories :: "path \<Rightarrow> path list \<Rightarrow> process \<Rightarrow> outcome" where
  "for_directories base [] s = (None, s)"
| "for_directories base (directory # rest) s =
     (let full_path = os_path_join base directory in
      case makedirs full_path True (files s) of
        (Some e, fs') \<Rightarrow> (Some (OSError e), s\<lparr>files := fs'\<rparr>)
      | (None, fs') \<Rightarrow>
          for_directories base rest
            (print (''Created: '' @ path_str full_path) (s\<lparr>files := fs'\<rparr>)))"

text \<open>
  \<^verbatim>\<open>create_dirs.py\<close> and \<^verbatim>\<open>create_test_dirs.py\<close>: the loop, then the summary line; an
  exception leaves the script.
\<close>

definition scaffold :: "path \<Rightarrow> path list \<Rightarrow> string \<Rightarrow> process \<Rightarrow> outcome" where
  "scaffold base dirs summary s =
     (case for_directories base dirs s of
        (Some e, s1) \<Rightarrow> (Some e, s1)
      | (None, s1) \<Rightarrow> (None, print summary s1))"

text \<open>
  \<^verbatim>\<open>create_structure.py\<close>:
  \<^verbatim>\<open>
    try:
        for directory in directories: ...
        print('\nDirectory structure created successfully!')
        sys.exit(0)
    except Exception as e:
        print(f'Error: {e}')
        sys.exit(1)
  \<close>
  \<open>str_of\<close> is \<^verbatim>\<open>str(e)\<close>, the text the host gives for an exception.
\<close>

definition try_body :: "path \<Rightarrow> path list \<Rightarrow> string \<Rightarrow> process \<Rightarrow> outcome" where
  "try_body base dirs summary s =
     (case for_directories base dirs s of
        (Some e, s1) \<Rightarrow> (Some e, s1)
      | (None, s1) \<Rightarrow> sys_exit 0 (print summary s1))"

definition scaffold_try :: "(exception \<Rightarrow> string) \<Rightarrow> path \<Rightarrow> path list \<Rightarrow> string \<Rightarrow> process \<Rightarrow> outcome" where
  "scaffold_try str_of base dirs summary s =
     (case try_body base dirs summary s of
        (None, s1) \<Rightarrow> (None, s1)
      | (Some e, s1) \<Rightarrow>
          (if isinstance_Exception e
           then sys_exit 1 (print (''Error: '' @ str_of e) s1)
           else (Some e, s1)))"

definition base_path :: path where
  "base_path = [''C:'', ''Users'', ''anupa'', ''copilot-hackathon'']"

definition directories :: "path list" where
  "directories =
    [[''src'', ''main'', ''java'', ''com'', ''hackathon'', ''app''],
     [''src'', ''main'', ''java'', ''com'', ''hackathon'', ''app'', ''controller''],
     [''src'', ''main'', ''java'', ''com'', ''hackathon'', ''app'', ''service''],
     [''src'', ''main'', ''java'', ''com'', ''hackathon'', ''app'', ''repository''],
     [''src'', ''main'', ''java'', ''com'', ''hackathon'', ''app'', ''entity''],
     [''src'', ''main'', ''java'', ''com'', ''hackathon'', ''app'', ''dto''],
     [''src'', ''main'', ''java'', ''com'', ''hackathon'', ''app'', ''security''],
     [''src'', ''main'', ''java'', ''com'', ''hackathon'', ''app'', ''exception''],
     [''src'', ''main'', ''resources''],
     [''src'', ''test'', ''java'', ''com'', ''hackathon'', ''app''],
     [''.github'', ''workflows'']]"

definition test_directories :: "path list" where
  "test_directories =
    [[''src'', ''test'', ''java'', ''com'', ''hackathon'', ''app'', ''controller''],
     [''src'', ''test'', ''java'', ''com'', ''hackathon'', ''app'', ''service''],
     [''src'', ''test'', ''java'', ''com'', ''hackathon'', ''app'', ''repository'']]"

definition structure_summary :: string where
  "structure_summary = ''\<newline>Directory structure created successfully!''"

definition test_summary :: string where
  "test_summary = ''\<newline>Test subdirectories created!''"

definition create_dirs :: "process \<Rightarrow> outcome" where
  "create_dirs = scaffold base_path directories structure_summary"

definition create_structure :: "(exception \<Rightarrow> string) \<Rightarrow> process \<Rightarrow> outcome" where
  "create_structure str_of = scaffold_try str_of base_path directories structure_summary"

definition create_test_dirs :: "process \<Rightarrow> outcome" where
  "create_test_dirs = scaffold base_path test_directories test_summary"

section \<open>Words for the properties\<close>

text \<open>The line the loop prints for one entry of the list.\<close>

definition created_line :: "path \<Rightarrow> path \<Rightarrow> string" where
  "created_line base directory = ''Created: '' @ path_str (os_path_join base directory)"

text \<open>
  The first entry of a list whose creation raises, with the error, found by creating the
  entries in order with the library routine alone; \<open>None\<close> when every entry can be
  created.
\<close>

fun first_failure :: "path \<Rightarrow> path list \<Rightarrow> filesystem \<Rightarrow> (nat \<times> os_error) option" where
  "first_failure base [] fs = None"
| "first_failure base (directory # rest) fs =
     (case makedirs (os_path_join base directory) True fs of
        (Some e, fs') \<Rightarrow> Some (0, e)
      | (None, fs') \<Rightarrow>
          (case first_failure base rest fs' of
             None \<Rightarrow> None
           | Some (k, e) \<Rightarrow> Some (Suc k, e)))"

text \<open>
  Hosts and inputs for the examples: a host with nothing but a writable root; the base
  \<^verbatim>\<open>/tmp/proj\<close> with the two entries \<^verbatim>\<open>src/a\<close> and \<^verbatim>\<open>src/b\<close>; a host where
  \<^verbatim>\<open>/tmp/proj/src/b\<close> is a regular file; and one text for \<^verbatim>\<open>str(e)\<close>.
\<close>

definition fresh_host :: process where
  "fresh_host = \<lparr>files = [([], Dir True)], stdout = []\<rparr>"

definition proj :: path where
  "proj = [''tmp'', ''proj'']"

definition two_dirs :: "path list" where
  "two_dirs = [[''src'', ''a''], [''src'', ''b'']]"

definition occupied_host :: process where
  "occupied_host =
     \<lparr>files = [([''tmp'', ''proj'', ''src'', ''b''], File ''notes''),
               ([''tmp'', ''proj'', ''src''], Dir True),
               ([''tmp'', ''proj''], Dir True),
               ([''tmp''], Dir True),
               ([], Dir True)],
      stdout = []\<rparr>"

text \<open>
  Two more lists for the host where \<^verbatim>\<open>/tmp/proj/src/b\<close> is a regular file: one with
  two entries before \<^verbatim>\<open>src/b\<close>, and one whose first entry \<^verbatim>\<open>src/b/x\<close> lies below the
  file.
\<close>

definition three_dirs :: "path list" where
  "three_dirs = [[''src'', ''a''], [''src'', ''c''], [''src'', ''b'']]"


definition sample_str :: "exception \<Rightarrow> string" where
  "sample_str e = ''cannot create the directory''"

text \<open>
  A host where the project directory exists and \<^verbatim>\<open>src\<close> in it is a regular file, so that
  the first entry of either list cannot be created.
\<close>

definition src_file_host :: process where
  "src_file_host =
     \<lparr>files = [([''C:'', ''Users'', ''anupa'', ''copilot-hackathon'', ''src''], File ''notes''),
               ([''C:'', ''Users'', ''anupa'', ''copilot-hackathon''], Dir True),
               ([''C:'', ''Users'', ''anupa''], Dir True),
               ([''C:'', ''Users''], Dir True),
               ([''C:''], Dir True),
               ([], Dir True)],
      stdout = []\<rparr>"

text \<open>
  A script hands an explicit status to the calling environment when it ends in
  \<^verbatim>\<open>sys.exit\<close>. The lines printed between two states of a process, and the form of the
  diagnostic line.
\<close>

fun explicit_status :: "exception option \<Rightarrow> bool" where
  "explicit_status (Some (SystemExit n)) = True"
| "explicit_status r = False"

definition printed :: "process \<Rightarrow> process \<Rightarrow> string list" where
  "printed s s' = drop (length (stdout s)) (stdout s')"

definition error_line :: "string \<Rightarrow> bool" where
  "error_line line = (take 7 line = ''Error: '')"

section \<open>Facts about the host and the loop\<close>


lemma stat_Cons: "stat ((q, n) # fs) p = (if p = q then Some n else stat fs p)"
  by (simp add: stat_def)

lemma mkdir_InrD:
  assumes "mkdir name fs = Inr fs'"
  shows "fs' = (name, Dir True) # fs" and "name \<noteq> []" and "stat fs name = None"
    and "stat fs (butlast name) = Some (Dir True)"
  using assms
  by (auto simp: mkdir_def path_exists_def split: if_splits option.splits node.splits)

lemma mkdir_guarded_cases:
  assumes "mkdir_guarded name ok fs = (r, fs')"
  obtains (same) "fs' = fs" "r = None \<longrightarrow> ok \<and> path_isdir fs name"
  | (made) "r = None" "mkdir name fs = Inr fs'"
  using assms
  by (auto simp: mkdir_guarded_def split: sum.splits if_splits)

lemma mkdir_guarded_mono:
  assumes "mkdir_guarded name ok fs = (r, fs')" and "stat fs p = Some n"
  shows "stat fs' p = Some n"
  using assms(1)
proof (cases rule: mkdir_guarded_cases)
  case same
  with assms(2) show ?thesis by simp
next
  case made
  from mkdir_InrD[OF made(2)] assms(2) show ?thesis
    by (auto simp: stat_Cons)
qed

lemma makedirs_mono:
  "makedirs name ok fs = (r, fs') \<Longrightarrow> stat fs p = Some n \<Longrightarrow> stat fs' p = Some n"
proof (induction name ok fs arbitrary: r fs' rule: makedirs.induct)
  case (1 name ok fs)
  show ?case
  proof (cases "name \<noteq> [] \<and> \<not> path_exists fs (butlast name)")
    case False
    with "1.prems" show ?thesis
      by (auto simp: makedirs.simps[of name ok fs] intro: mkdir_guarded_mono)
  next
    case True
    obtain r1 fs1 where rec: "makedirs (butlast name) ok fs = (r1, fs1)"
      by (cases "makedirs (butlast name) ok fs")
    from "1.IH"[OF True rec "1.prems"(2)] have st1: "stat fs1 p = Some n" .
    from True rec "1.prems"(1)
    have "mkdir_guarded name ok fs1 = (r, fs') \<or> fs' = fs1"
      by (auto simp: makedirs.simps[of name ok fs] split: option.splits if_splits)
    with st1 show ?thesis
      by (auto intro: mkdir_guarded_mono)
  qed
qed

lemma makedirs_isdir:
  assumes "makedirs name ok fs = (None, fs')"
  shows "path_isdir fs' name"
proof -
  from assms obtain fs1 where g: "mkdir_guarded name ok fs1 = (None, fs')"
    by (auto simp: makedirs.simps[of name ok fs] split: if_splits option.splits prod.splits)
  then show ?thesis
  proof (cases rule: mkdir_guarded_cases)
    case same
    then show ?thesis by simp
  next
    case made
    from mkdir_InrD(1)[OF made(2)] show ?thesis
      by (simp add: path_isdir_def stat_Cons)
  qed
qed


lemma wf_fs_parent:
  assumes "wf_fs fs" and "stat fs p = Some n" and "p \<noteq> []"
  shows "path_isdir fs (butlast p)"
proof -
  from assms(2) have "(p, n) \<in> set fs"
    by (simp add: stat_def map_of_SomeD)
  with assms(1,3) show ?thesis
    by (auto simp: wf_fs_def list_all_iff)
qed


lemma path_isdir_exists: "path_isdir fs p \<Longrightarrow> path_exists fs p"
  by (auto simp: path_isdir_def path_exists_def split: option.splits)

lemma path_isdir_Cons:
  "path_isdir fs p \<Longrightarrow> path_isdir ((q, Dir w) # fs) p"
  by (auto simp: path_isdir_def stat_Cons)

lemma mkdir_wf:
  assumes "mkdir name fs = Inr fs'" and "wf_fs fs"
  shows "wf_fs fs'"
proof -
  note m = mkdir_InrD[OF assms(1)]
  from m(4) have par: "path_isdir fs (butlast name)"
    by (simp add: path_isdir_def)
  from assms(2) have "list_all (\<lambda>(p, n). p = [] \<or> path_isdir ((name, Dir True) # fs) (butlast p)) fs"
    by (auto simp: wf_fs_def list_all_iff intro: path_isdir_Cons)
  with par assms(2) show ?thesis
    by (simp add: m(1) wf_fs_def path_isdir_Cons)
qed

lemma mkdir_guarded_wf:
  assumes "mkdir_guarded name ok fs = (r, fs')" and "wf_fs fs"
  shows "wf_fs fs'"
  using assms(1)
  by (cases rule: mkdir_guarded_cases) (auto intro: mkdir_wf assms(2))

lemma makedirs_wf:
  "makedirs name ok fs = (r, fs') \<Longrightarrow> wf_fs fs \<Longrightarrow> wf_fs fs'"
proof (induction name ok fs arbitrary: r fs' rule: makedirs.induct)
  case (1 name ok fs)
  show ?case
  proof (cases "name \<noteq> [] \<and> \<not> path_exists fs (butlast name)")
    case False
    with "1.prems" show ?thesis
      by (auto simp: makedirs.simps[of name ok fs] intro: mkdir_guarded_wf)
  next
    case True
    obtain r1 fs1 where rec: "makedirs (butlast name) ok fs = (r1, fs1)"
      by (cases "makedirs (butlast name) ok fs")
    from "1.IH"[OF True rec "1.prems"(2)] have wf1: "wf_fs fs1" .
    from True rec "1.prems"(1)
    have "mkdir_guarded name ok fs1 = (r, fs') \<or> fs' = fs1"
      by (auto simp: makedirs.simps[of name ok fs] split: option.splits if_splits)
    with wf1 show ?thesis
      by (auto intro: mkdir_guarded_wf)
  qed
qed

text \<open>Whatever a call adds is a writable directory on the way to its target.\<close>

lemma mkdir_guarded_frame:
  assumes "mkdir_guarded name ok fs = (r, fs')" and "stat fs' p = Some n"
  shows "stat fs p = Some n \<or> (p = name \<and> n = Dir True \<and> stat fs p = None)"
  using assms(1)
proof (cases rule: mkdir_guarded_cases)
  case same
  with assms(2) show ?thesis by simp
next
  case made
  from mkdir_InrD[OF made(2)] assms(2) show ?thesis
    by (auto simp: stat_Cons split: if_splits)
qed

lemma makedirs_frame:
  "makedirs name ok fs = (r, fs') \<Longrightarrow> stat fs' p = Some n \<Longrightarrow>
     stat fs p = Some n \<or> (prefix p name \<and> n = Dir True \<and> stat fs p = None)"
proof (induction name ok fs arbitrary: r fs' p n rule: makedirs.induct)
  case (1 name ok fs)
  show ?case
  proof (cases "name \<noteq> [] \<and> \<not> path_exists fs (butlast name)")
    case False
    with "1.prems" show ?thesis
      by (auto simp: makedirs.simps[of name ok fs] dest: mkdir_guarded_frame)
  next
    case True
    obtain r1 fs1 where rec: "makedirs (butlast name) ok fs = (r1, fs1)"
      by (cases "makedirs (butlast name) ok fs")
    have pre: "prefix q (butlast name) \<Longrightarrow> prefix q name" for q
      by (metis True append_butlast_last_id prefix_order.order_trans prefixI)
    have step: "stat fs q = Some m \<or> (prefix q name \<and> m = Dir True \<and> stat fs q = None)"
      if "stat fs1 q = Some m" for q m
      using "1.IH"[OF True rec that] pre by blast
    from True rec "1.prems"(1)
    have "mkdir_guarded name ok fs1 = (r, fs') \<or> fs' = fs1"
      by (auto simp: makedirs.simps[of name ok fs] split: option.splits if_splits)
    then show ?thesis
    proof
      assume "fs' = fs1"
      with "1.prems"(2) step show ?thesis by simp
    next
      assume g: "mkdir_guarded name ok fs1 = (r, fs')"
      from mkdir_guarded_frame[OF g "1.prems"(2)]
      show ?thesis
      proof
        assume "stat fs1 p = Some n"
        then show ?thesis by (rule step)
      next
        assume a: "p = name \<and> n = Dir True \<and> stat fs1 p = None"
        have "stat fs p = None"
        proof (cases "stat fs p")
          case (Some m)
          from makedirs_mono[OF rec Some] a have False by auto
          then show ?thesis ..
        qed simp
        with a show ?thesis by simp
      qed
    qed
  qed
qed


text \<open>An existing directory is skipped.\<close>

lemma makedirs_noop:
  assumes "wf_fs fs" and "path_isdir fs name"
  shows "makedirs name True fs = (None, fs)"
proof -
  have par: "path_isdir fs (butlast name)" if "name \<noteq> []"
  proof -
    from assms(2) obtain w where "stat fs name = Some (Dir w)"
      by (auto simp: path_isdir_def split: option.splits node.splits)
    from wf_fs_parent[OF assms(1) this that] show ?thesis .
  qed
  have "\<exists>e. mkdir name fs = Inl e"
  proof (cases "name = []")
    case True
    then show ?thesis by (simp add: mkdir_def)
  next
    case False
    with par assms(2) show ?thesis
      by (auto simp: mkdir_def path_isdir_def path_exists_def split: option.splits node.splits)
  qed
  with assms(2) have "mkdir_guarded name True fs = (None, fs)"
    by (auto simp: mkdir_guarded_def)
  with par show ?thesis
    by (auto simp: makedirs.simps[of name True fs] dest: path_isdir_exists)
qed

text \<open>A call that raises has created nothing.\<close>

lemma makedirs_fail_unchanged:
  "makedirs name ok fs = (Some e, fs') \<Longrightarrow> wf_fs fs \<Longrightarrow> fs' = fs"
proof (induction name ok fs arbitrary: e fs' rule: makedirs.induct)
  case (1 name ok fs)
  show ?case
  proof (cases "name \<noteq> [] \<and> \<not> path_exists fs (butlast name)")
    case False
    with "1.prems"(1) have "mkdir_guarded name ok fs = (Some e, fs')"
      by (auto simp: makedirs.simps[of name ok fs])
    then show ?thesis
      by (cases rule: mkdir_guarded_cases) auto
  next
    case True
    obtain r1 fs1 where rec: "makedirs (butlast name) ok fs = (r1, fs1)"
      by (cases "makedirs (butlast name) ok fs")
    show ?thesis
    proof (cases r1)
      case (Some e1)
      from "1.IH"[OF True rec[unfolded Some] "1.prems"(2)] have eq: "fs1 = fs" .
      from True rec Some "1.prems"(1)
      have "mkdir_guarded name ok fs1 = (Some e, fs') \<or> fs' = fs1"
        by (auto simp: makedirs.simps[of name ok fs] split: if_splits)
      then show ?thesis
      proof
        assume "mkdir_guarded name ok fs1 = (Some e, fs')"
        then show ?thesis
          by (cases rule: mkdir_guarded_cases) (auto simp: eq)
      qed (simp add: eq)
    next
      case None
      from makedirs_isdir[OF rec[unfolded None]] obtain w
        where hd1: "stat fs1 (butlast name) = Some (Dir w)"
        by (auto simp: path_isdir_def split: option.splits node.splits)
      from True have nohead: "stat fs (butlast name) = None"
        by (auto simp: path_exists_def split: option.splits)
      from makedirs_frame[OF rec hd1] nohead have w: "w = True" by auto
      have noname: "stat fs1 name = None"
      proof (cases "stat fs1 name")
        case (Some m)
        from makedirs_frame[OF rec Some]
        show ?thesis
        proof
          assume "stat fs name = Some m"
          from wf_fs_parent[OF "1.prems"(2) this] True have False
            by (auto dest: path_isdir_exists)
          then show ?thesis ..
        next
          assume "prefix name (butlast name) \<and> m = Dir True \<and> stat fs name = None"
          then have "prefix name (butlast name)" ..
          then have "length name \<le> length (butlast name)"
            by (rule prefix_length_le)
          moreover from True have "0 < length name" by simp
          ultimately have False by (simp only: length_butlast)
          then show ?thesis ..
        qed
      qed simp
      from True hd1 w noname have "mkdir name fs1 = Inr ((name, Dir True) # fs1)"
        by (simp add: mkdir_def path_exists_def)
      then have "mkdir_guarded name ok fs1 = (None, (name, Dir True) # fs1)"
        by (simp add: mkdir_guarded_def)
      with True rec None "1.prems"(1) have False
        by (simp add: makedirs.simps[of name ok fs])
      then show ?thesis ..
    qed
  qed
qed


lemma for_directories_Cons_ok:
  assumes "makedirs (os_path_join base d) True (files s) = (None, fs')"
  shows "for_directories base (d # rest) s =
           for_directories base rest (print (created_line base d) (s\<lparr>files := fs'\<rparr>))"
  using assms by (simp add: created_line_def)

lemma for_directories_Cons_fail:
  assumes "makedirs (os_path_join base d) True (files s) = (Some e, fs')"
  shows "for_directories base (d # rest) s = (Some (OSError e), s\<lparr>files := fs'\<rparr>)"
  using assms by simp

lemma files_print [simp]: "files (print line s) = files s"
  by (simp add: print_def)

lemma stdout_print [simp]: "stdout (print line s) = stdout s @ [line]"
  by (simp add: print_def)

lemma for_directories_append:
  "for_directories base (xs @ ys) s =
     (case for_directories base xs s of
        (None, s1) \<Rightarrow> for_directories base ys s1
      | (Some e, s1) \<Rightarrow> (Some e, s1))"
proof (induction xs arbitrary: s)
  case Nil
  show ?case by simp
next
  case (Cons d xs)
  obtain r fs' where m: "makedirs (os_path_join base d) True (files s) = (r, fs')"
    by (cases "makedirs (os_path_join base d) True (files s)")
  show ?case
  proof (cases r)
    case None
    with m Cons.IH show ?thesis
      by (simp add: for_directories_Cons_ok del: for_directories.simps)
  next
    case (Some e)
    with m show ?thesis
      by (simp add: for_directories_Cons_fail del: for_directories.simps)
  qed
qed

lemma for_directories_success_stdout:
  "for_directories base ds s = (None, s') \<Longrightarrow>
     stdout s' = stdout s @ map (created_line base) ds"
proof (induction ds arbitrary: s)
  case Nil
  then show ?case by simp
next
  case (Cons d ds)
  obtain r fs' where m: "makedirs (os_path_join base d) True (files s) = (r, fs')"
    by (cases "makedirs (os_path_join base d) True (files s)")
  show ?case
  proof (cases r)
    case None
    with m Cons.prems
    have "for_directories base ds (print (created_line base d) (s\<lparr>files := fs'\<rparr>)) = (None, s')"
      by (simp add: for_directories_Cons_ok del: for_directories.simps)
    from Cons.IH[OF this] show ?thesis by simp
  next
    case (Some e)
    with m Cons.prems show ?thesis
      by (simp add: for_directories_Cons_fail del: for_directories.simps)
  qed
qed

text \<open>A failing loop: some entry is the first whose creation raises.\<close>

lemma for_directories_failure:
  "for_directories base ds s = (Some x, s') \<Longrightarrow>
     \<exists>i si e. i < length ds \<and> for_directories base (take i ds) s = (None, si) \<and>
       makedirs (os_path_join base (ds ! i)) True (files si) = (Some e, files s') \<and>
       x = OSError e \<and> s' = si\<lparr>files := files s'\<rparr>"
proof (induction ds arbitrary: s)
  case Nil
  then show ?case by simp
next
  case (Cons d ds)
  obtain r fs' where m: "makedirs (os_path_join base d) True (files s) = (r, fs')"
    by (cases "makedirs (os_path_join base d) True (files s)")
  show ?case
  proof (cases r)
    case None
    let ?s1 = "print (created_line base d) (s\<lparr>files := fs'\<rparr>)"
    from None m Cons.prems have "for_directories base ds ?s1 = (Some x, s')"
      by (simp add: for_directories_Cons_ok del: for_directories.simps)
    from Cons.IH[OF this] obtain i si e where i: "i < length ds"
      and pre: "for_directories base (take i ds) ?s1 = (None, si)"
      and mk: "makedirs (os_path_join base (ds ! i)) True (files si) = (Some e, files s')"
      and x: "x = OSError e" and s': "s' = si\<lparr>files := files s'\<rparr>"
      by blast
    from None m pre have "for_directories base (take (Suc i) (d # ds)) s = (None, si)"
      by (simp add: for_directories_Cons_ok del: for_directories.simps)
    with i mk x s' show ?thesis
      by (intro exI[of _ "Suc i"] exI[of _ si] exI[of _ e]) simp
  next
    case (Some e)
    with m Cons.prems have "x = OSError e" "s' = s\<lparr>files := fs'\<rparr>"
      by (simp_all add: for_directories_Cons_fail del: for_directories.simps)
    with m Some show ?thesis
      by (intro exI[of _ 0] exI[of _ s] exI[of _ e]) simp
  qed
qed

lemma for_directories_fails_at:
  assumes "i < length ds"
    and "for_directories base (take i ds) s = (None, si)"
    and "makedirs (os_path_join base (ds ! i)) True (files si) = (Some e, fs')"
  shows "for_directories base ds s = (Some (OSError e), si\<lparr>files := fs'\<rparr>)"
proof -
  from assms(1) have "ds = take i ds @ (ds ! i) # drop (Suc i) ds"
    by (simp add: id_take_nth_drop)
  then have "for_directories base ds s =
      for_directories base (take i ds @ (ds ! i) # drop (Suc i) ds) s"
    by simp
  also have "\<dots> = for_directories base ((ds ! i) # drop (Suc i) ds) si"
    by (simp add: for_directories_append assms(2) del: for_directories.simps)
  also have "\<dots> = (Some (OSError e), si\<lparr>files := fs'\<rparr>)"
    using assms(3) by (rule for_directories_Cons_fail)
  finally show ?thesis .
qed


lemma for_directories_mono:
  "for_directories base ds s = (r, s') \<Longrightarrow> stat (files s) p = Some n \<Longrightarrow>
     stat (files s') p = Some n"
proof (induction ds arbitrary: s)
  case Nil
  then show ?case by simp
next
  case (Cons d ds)
  obtain r1 fs1 where m: "makedirs (os_path_join base d) True (files s) = (r1, fs1)"
    by (cases "makedirs (os_path_join base d) True (files s)")
  from makedirs_mono[OF m Cons.prems(2)] have st: "stat fs1 p = Some n" .
  show ?case
  proof (cases r1)
    case None
    let ?s1 = "print (created_line base d) (s\<lparr>files := fs1\<rparr>)"
    from None m Cons.prems(1) have "for_directories base ds ?s1 = (r, s')"
      by (simp add: for_directories_Cons_ok del: for_directories.simps)
    from Cons.IH[OF this] st show ?thesis by simp
  next
    case (Some e)
    with m Cons.prems(1) st show ?thesis
      by (auto simp: for_directories_Cons_fail simp del: for_directories.simps)
  qed
qed

lemma for_directories_wf:
  "for_directories base ds s = (r, s') \<Longrightarrow> wf_fs (files s) \<Longrightarrow> wf_fs (files s')"
proof (induction ds arbitrary: s)
  case Nil
  then show ?case by simp
next
  case (Cons d ds)
  obtain r1 fs1 where m: "makedirs (os_path_join base d) True (files s) = (r1, fs1)"
    by (cases "makedirs (os_path_join base d) True (files s)")
  from makedirs_wf[OF m Cons.prems(2)] have wf1: "wf_fs fs1" .
  show ?case
  proof (cases r1)
    case None
    let ?s1 = "print (created_line base d) (s\<lparr>files := fs1\<rparr>)"
    from None m Cons.prems(1) have "for_directories base ds ?s1 = (r, s')"
      by (simp add: for_directories_Cons_ok del: for_directories.simps)
    from Cons.IH[OF this] wf1 show ?thesis by simp
  next
    case (Some e)
    with m Cons.prems(1) wf1 show ?thesis
      by (auto simp: for_directories_Cons_fail simp del: for_directories.simps)
  qed
qed

lemma path_isdir_mono:
  assumes "path_isdir fs p" and "\<And>n. stat fs p = Some n \<Longrightarrow> stat fs' p = Some n"
  shows "path_isdir fs' p"
  using assms by (auto simp: path_isdir_def split: option.splits node.splits)

lemma for_directories_targets:
  "for_directories base ds s = (None, s') \<Longrightarrow> d \<in> set ds \<Longrightarrow>
     path_isdir (files s') (os_path_join base d)"
proof (induction ds arbitrary: s)
  case Nil
  then show ?case by simp
next
  case (Cons d0 ds)
  obtain r1 fs1 where m: "makedirs (os_path_join base d0) True (files s) = (r1, fs1)"
    by (cases "makedirs (os_path_join base d0) True (files s)")
  show ?case
  proof (cases r1)
    case None
    let ?s1 = "print (created_line base d0) (s\<lparr>files := fs1\<rparr>)"
    from None m Cons.prems(1) have run: "for_directories base ds ?s1 = (None, s')"
      by (simp add: for_directories_Cons_ok del: for_directories.simps)
    show ?thesis
    proof (cases "d = d0")
      case True
      from makedirs_isdir[OF m[unfolded None]] have "path_isdir (files ?s1) (os_path_join base d)"
        by (simp add: True)
      then show ?thesis
        by (rule path_isdir_mono) (rule for_directories_mono[OF run])
    next
      case False
      with Cons.prems(2) have "d \<in> set ds" by simp
      from Cons.IH[OF run this] show ?thesis .
    qed
  next
    case (Some e)
    with m Cons.prems(1) show ?thesis
      by (simp add: for_directories_Cons_fail del: for_directories.simps)
  qed
qed

text \<open>Whatever the loop adds is a writable directory on the way to one of its targets.\<close>

lemma for_directories_frame:
  "for_directories base ds s = (r, s') \<Longrightarrow> stat (files s') p = Some n \<Longrightarrow>
     stat (files s) p = Some n \<or>
     (n = Dir True \<and> stat (files s) p = None \<and> (\<exists>d \<in> set ds. prefix p (os_path_join base d)))"
proof (induction ds arbitrary: s)
  case Nil
  then show ?case by simp
next
  case (Cons d0 ds)
  obtain r1 fs1 where m: "makedirs (os_path_join base d0) True (files s) = (r1, fs1)"
    by (cases "makedirs (os_path_join base d0) True (files s)")
  have first: "stat (files s) p = Some n \<or>
     (n = Dir True \<and> stat (files s) p = None \<and> (\<exists>d \<in> set (d0 # ds). prefix p (os_path_join base d)))"
    if "stat fs1 p = Some n"
    using makedirs_frame[OF m that] by auto
  show ?case
  proof (cases r1)
    case None
    let ?s1 = "print (created_line base d0) (s\<lparr>files := fs1\<rparr>)"
    from None m Cons.prems(1) have run: "for_directories base ds ?s1 = (r, s')"
      by (simp add: for_directories_Cons_ok del: for_directories.simps)
    from Cons.IH[OF run Cons.prems(2)]
    show ?thesis
    proof
      assume "stat (files ?s1) p = Some n"
      then show ?thesis using first by simp
    next
      assume a: "n = Dir True \<and> stat (files ?s1) p = None \<and>
        (\<exists>d \<in> set ds. prefix p (os_path_join base d))"
      have "stat (files s) p = None"
      proof (cases "stat (files s) p")
        case (Some k)
        from makedirs_mono[OF m Some] a have False by simp
        then show ?thesis ..
      qed simp
      with a show ?thesis by auto
    qed
  next
    case (Some e)
    with m Cons.prems first show ?thesis
      by (auto simp: for_directories_Cons_fail simp del: for_directories.simps)
  qed
qed

text \<open>Running the loop again on the tree it left changes nothing and ends the same way.\<close>

lemma for_directories_again:
  "for_directories base ds s = (r, s') \<Longrightarrow> wf_fs (files s) \<Longrightarrow> files t = files s' \<Longrightarrow>
     fst (for_directories base ds t) = r \<and> files (snd (for_directories base ds t)) = files s'"
proof (induction ds arbitrary: s t)
  case Nil
  then show ?case by auto
next
  case (Cons d ds)
  obtain r1 fs1 where m: "makedirs (os_path_join base d) True (files s) = (r1, fs1)"
    by (cases "makedirs (os_path_join base d) True (files s)")
  from makedirs_wf[OF m Cons.prems(2)] have wf1: "wf_fs fs1" .
  show ?case
  proof (cases r1)
    case None
    let ?s1 = "print (created_line base d) (s\<lparr>files := fs1\<rparr>)"
    from None m Cons.prems(1) have run: "for_directories base ds ?s1 = (r, s')"
      by (simp add: for_directories_Cons_ok del: for_directories.simps)
    from makedirs_isdir[OF m[unfolded None]] have "path_isdir (files ?s1) (os_path_join base d)"
      by simp
    then have "path_isdir (files s') (os_path_join base d)"
      by (rule path_isdir_mono) (rule for_directories_mono[OF run])
    moreover from for_directories_wf[OF run] wf1 have "wf_fs (files s')" by simp
    ultimately have "makedirs (os_path_join base d) True (files t) = (None, files t)"
      using Cons.prems(3) by (simp add: makedirs_noop)
    then have again: "for_directories base (d # ds) t =
        for_directories base ds (print (created_line base d) (t\<lparr>files := files t\<rparr>))"
      by (rule for_directories_Cons_ok)
    have "wf_fs (files ?s1)" using wf1 by simp
    from Cons.IH[OF run this, of "print (created_line base d) (t\<lparr>files := files t\<rparr>)"] Cons.prems(3)
    show ?thesis
      unfolding again by simp
  next
    case (Some e)
    with m Cons.prems(1) have r: "r = Some (OSError e)" and s': "s' = s\<lparr>files := fs1\<rparr>"
      by (simp_all add: for_directories_Cons_fail del: for_directories.simps)
    from makedirs_fail_unchanged[OF m[unfolded Some] Cons.prems(2)] have "fs1 = files s" .
    with s' Cons.prems(3) have "files t = files s" "files s' = files s" by simp_all
    with m Some have "makedirs (os_path_join base d) True (files t) = (Some e, files t)"
      using \<open>fs1 = files s\<close> by simp
    then have "for_directories base (d # ds) t = (Some (OSError e), t\<lparr>files := files t\<rparr>)"
      by (rule for_directories_Cons_fail)
    with r \<open>files t = files s\<close> \<open>files s' = files s\<close> show ?thesis by simp
  qed
qed

text \<open>The loop fails exactly at the first entry whose creation raises.\<close>

lemma for_directories_first_failure:
  "for_directories base ds s = (r, s') \<Longrightarrow>
     (case first_failure base ds (files s) of
        None \<Rightarrow> r = None
      | Some (k, e) \<Rightarrow>
          r = Some (OSError e) \<and> k < length ds \<and>
          stdout s' = stdout s @ map (created_line base) (take k ds) \<and>
          first_failure base (take k ds) (files s) = None \<and>
          (\<exists>sk. for_directories base (take k ds) s = (None, sk) \<and>
             fst (makedirs (os_path_join base (ds ! k)) True (files sk)) = Some e))"
proof (induction ds arbitrary: s)
  case Nil
  then show ?case by simp
next
  case (Cons d ds)
  obtain r1 fs1 where m: "makedirs (os_path_join base d) True (files s) = (r1, fs1)"
    by (cases "makedirs (os_path_join base d) True (files s)")
  show ?case
  proof (cases r1)
    case (Some e)
    with m Cons.prems have "r = Some (OSError e)" "s' = s\<lparr>files := fs1\<rparr>"
      by (simp_all add: for_directories_Cons_fail del: for_directories.simps)
    with m Some show ?thesis by simp
  next
    case None
    let ?s1 = "print (created_line base d) (s\<lparr>files := fs1\<rparr>)"
    from None m Cons.prems have run: "for_directories base ds ?s1 = (r, s')"
      by (simp add: for_directories_Cons_ok del: for_directories.simps)
    have f1: "files ?s1 = fs1" by simp
    note ih = Cons.IH[OF run, unfolded f1]
    show ?thesis
    proof (cases "first_failure base ds fs1")
      case None': None
      with ih m None show ?thesis by simp
    next
      case (Some ke)
      obtain k e where ke: "ke = (k, e)" by (cases ke)
      from ih Some ke obtain sk where r: "r = Some (OSError e)" and k: "k < length ds"
        and out: "stdout s' = stdout ?s1 @ map (created_line base) (take k ds)"
        and pre: "first_failure base (take k ds) fs1 = None"
        and sk: "for_directories base (take k ds) ?s1 = (None, sk)"
        and mk: "fst (makedirs (os_path_join base (ds ! k)) True (files sk)) = Some e"
        by auto
      from m None sk have sk': "for_directories base (take (Suc k) (d # ds)) s = (None, sk)"
        by (simp add: for_directories_Cons_ok del: for_directories.simps)
      have "\<exists>sk. for_directories base (take (Suc k) (d # ds)) s = (None, sk) \<and>
          fst (makedirs (os_path_join base ((d # ds) ! Suc k)) True (files sk)) = Some e"
        using sk' mk by (intro exI[of _ sk]) simp
      with r k out pre m None Some ke show ?thesis
        by (simp del: for_directories.simps)
    qed
  qed
qed

lemma for_directories_raises_OSError:
  assumes "for_directories base ds s = (Some x, s')"
  shows "\<exists>e. x = OSError e"
  using for_directories_failure[OF assms] by blast

lemma scaffold_success:
  assumes "scaffold base dirs summary s = (r, s')" and "exit_status r = 0"
  shows "\<exists>s1. for_directories base dirs s = (None, s1) \<and> r = None \<and> s' = print summary s1"
proof (cases "for_directories base dirs s")
  case (Pair r1 s1)
  show ?thesis
  proof (cases r1)
    case None
    with Pair assms(1) show ?thesis by (auto simp: scaffold_def)
  next
    case (Some x)
    from for_directories_raises_OSError[OF Pair[unfolded Some]] obtain e where "x = OSError e" ..
    with Pair Some assms show ?thesis by (auto simp: scaffold_def)
  qed
qed

lemma scaffold_try_success:
  assumes "scaffold_try str_of base dirs summary s = (r, s')" and "exit_status r = 0"
  shows "\<exists>s1. for_directories base dirs s = (None, s1) \<and> r = Some (SystemExit 0) \<and>
           s' = print summary s1"
proof (cases "for_directories base dirs s")
  case (Pair r1 s1)
  show ?thesis
  proof (cases r1)
    case None
    with Pair assms(1) show ?thesis
      by (auto simp: scaffold_try_def try_body_def sys_exit_def)
  next
    case (Some x)
    from for_directories_raises_OSError[OF Pair[unfolded Some]] obtain e where "x = OSError e" ..
    with Pair Some assms show ?thesis
      by (auto simp: scaffold_try_def try_body_def sys_exit_def)
  qed
qed

lemma wf_fs_prefix:
  "wf_fs fs \<Longrightarrow> path_isdir fs p \<Longrightarrow> prefix q p \<Longrightarrow> path_isdir fs q"
proof (induction p rule: rev_induct)
  case Nil
  then show ?case by simp
next
  case (snoc x xs)
  show ?case
  proof (cases "q = xs @ [x]")
    case True
    with snoc.prems(2) show ?thesis by simp
  next
    case False
    with snoc.prems(3) have pre: "prefix q xs" by (simp add: prefix_snoc)
    from snoc.prems(2) obtain w where "stat fs (xs @ [x]) = Some (Dir w)"
      by (auto simp: path_isdir_def split: option.splits node.splits)
    from wf_fs_parent[OF snoc.prems(1) this] have "path_isdir fs xs" by simp
    from snoc.IH[OF snoc.prems(1) this pre] show ?thesis .
  qed
qed

lemma scaffold_again:
  assumes "wf_fs (files s)"
  shows "files (snd (scaffold base dirs summary (snd (scaffold base dirs summary s)))) =
           files (snd (scaffold base dirs summary s)) \<and>
         fst (scaffold base dirs summary (snd (scaffold base dirs summary s))) =
           fst (scaffold base dirs summary s)"
proof (cases "for_directories base dirs s")
  case (Pair r1 s1)
  let ?s' = "snd (scaffold base dirs summary s)"
  have f: "files ?s' = files s1"
    using Pair by (cases r1) (simp_all add: scaffold_def)
  from for_directories_again[OF Pair assms f]
  obtain t1 where t: "for_directories base dirs ?s' = (r1, t1)" and ft: "files t1 = files s1"
    by (cases "for_directories base dirs ?s'") auto
  have "fst (scaffold base dirs summary s) = r1"
    using Pair by (cases r1) (simp_all add: scaffold_def)
  moreover have "fst (scaffold base dirs summary ?s') = r1 \<and>
      files (snd (scaffold base dirs summary ?s')) = files s1"
    using t ft by (cases r1) (simp_all add: scaffold_def)
  ultimately show ?thesis using f by simp
qed

lemma scaffold_try_again:
  assumes "wf_fs (files s)"
  shows "files (snd (scaffold_try str_of base dirs summary
                  (snd (scaffold_try str_of base dirs summary s)))) =
           files (snd (scaffold_try str_of base dirs summary s)) \<and>
         fst (scaffold_try str_of base dirs summary
                  (snd (scaffold_try str_of base dirs summary s))) =
           fst (scaffold_try str_of base dirs summary s)"
proof (cases "for_directories base dirs s")
  case (Pair r1 s1)
  let ?run = "scaffold_try str_of base dirs summary"
  let ?s' = "snd (?run s)"
  have shape: "files (snd (?run u)) = files u1 \<and>
      fst (?run u) = Some (SystemExit (if r1 = None then 0 else 1))"
    if "for_directories base dirs u = (r1, u1)" for u u1
  proof (cases r1)
    case None
    with that show ?thesis
      by (simp add: scaffold_try_def try_body_def sys_exit_def)
  next
    case (Some x)
    from for_directories_raises_OSError[OF that[unfolded Some]] obtain e where "x = OSError e" ..
    with that Some show ?thesis
      by (simp add: scaffold_try_def try_body_def sys_exit_def)
  qed
  from shape[OF Pair] have f: "files ?s' = files s1" by simp
  from for_directories_again[OF Pair assms f]
  obtain t1 where t: "for_directories base dirs ?s' = (r1, t1)" and ft: "files t1 = files s1"
    by (cases "for_directories base dirs ?s'") auto
  from shape[OF Pair] shape[OF t] ft show ?thesis by simp
qed


lemma printed_append: "stdout s' = stdout s @ ls \<Longrightarrow> printed s s' = ls"
  by (simp add: printed_def)

lemma created_line_plain:
  "\<not> error_line (created_line base d)" "created_line base d \<noteq> structure_summary"
  by (simp_all add: created_line_def error_line_def structure_summary_def)

lemma summary_plain:
  "\<not> error_line structure_summary" "''Error: '' @ msg \<noteq> structure_summary"
  "error_line (''Error: '' @ msg)"
  by (simp_all add: error_line_def structure_summary_def)

section \<open>Runs on the example hosts\<close>

text \<open>
  The line printed for the last entry of \<open>directories\<close>. The three scripts started on the
  host that has only the root run to their end; started on the host where \<^verbatim>\<open>src\<close> is a
  regular file, either loop raises at its first entry and leaves the host as it was; on
  the host where \<^verbatim>\<open>/tmp/proj/src/b\<close> is a regular file the first of the two entries is
  created.
\<close>

lemma created_line_example:
  "created_line base_path [''.github'', ''workflows''] =
     ''Created: C:'' @ [os_sep] @ ''Users'' @ [os_sep] @ ''anupa'' @ [os_sep] @
     ''copilot-hackathon'' @ [os_sep] @ ''.github'' @ [os_sep] @ ''workflows''"
  by (simp add: created_line_def base_path_def os_path_join_def)

lemma fresh_host_runs:
  "fst (create_dirs fresh_host) = None"
  "fst (create_structure sample_str fresh_host) = Some (SystemExit 0)"
  "fst (create_test_dirs fresh_host) = None"
  by code_simp+

lemma src_file_host_loops:
  "for_directories base_path directories src_file_host =
     (Some (OSError (NotADirectoryError (os_path_join base_path [''src'', ''main'']))), src_file_host)"
  "for_directories base_path test_directories src_file_host =
     (Some (OSError (NotADirectoryError (os_path_join base_path [''src'', ''test'']))), src_file_host)"
  by code_simp+

lemma occupied_host_facts:
  "wf_fs (files occupied_host)"
  "stat (files occupied_host) (os_path_join proj (two_dirs ! 1)) = Some (File ''notes'')"
  "fst (for_directories proj (take 1 two_dirs) occupied_host) = None"
  by code_simp+

lemma occupied_host_failures:
  "first_failure proj three_dirs (files occupied_host) =
     Some (2, FileExistsError [''tmp'', ''proj'', ''src'', ''b''])"
  "first_failure proj two_dirs (files occupied_host) =
     Some (1, FileExistsError [''tmp'', ''proj'', ''src'', ''b''])"
  "first_failure base_path test_directories (files fresh_host) = None"
  by code_simp+

section \<open>The claims\<close>

text \<open>
  C1. After a successful run of the scaffolder on a base path and a list of relative
  paths, started on a well-formed tree, every joined path is a directory, and so is every
  ancestor of it; every entry that was there before the run is there after it, with the
  same node. A run is successful when its exit status is 0; the statement covers the
  scripts that let an exception leave and the script that catches it.
\<close>

theorem scaffold_creates_targets:
  assumes "wf_fs (files s)"
    and "scaffold base dirs summary s = (r, s') \<or>
         scaffold_try str_of base dirs summary s = (r, s')"
    and "exit_status r = 0"
  shows "(\<forall>d \<in> set dirs. \<forall>q. prefix q (os_path_join base d) \<longrightarrow> path_isdir (files s') q) \<and>
         (\<forall>p n. stat (files s) p = Some n \<longrightarrow> stat (files s') p = Some n)"
proof -
  from assms(2,3) obtain s1 where loop: "for_directories base dirs s = (None, s1)"
    and s': "files s' = files s1"
    by (auto dest!: scaffold_success scaffold_try_success)
  from for_directories_wf[OF loop assms(1)] have wf1: "wf_fs (files s1)" .
  have "path_isdir (files s') q" if "d \<in> set dirs" and "prefix q (os_path_join base d)" for d q
    using wf_fs_prefix[OF wf1 for_directories_targets[OF loop that(1)] that(2)] s' by simp
  moreover have "stat (files s') p = Some n" if "stat (files s) p = Some n" for p n
    using for_directories_mono[OF loop that] s' by simp
  ultimately show ?thesis by blast
qed

text \<open>
  C1 on \<^verbatim>\<open>create_test_dirs.py\<close>, started on the host that has only the root: the run
  exits with status 0, the second entry and the ancestor \<^verbatim>\<open>C:\Users\anupa\<close> are
  directories, and the root is what it was.
\<close>

theorem scaffold_creates_targets_witness:
  "wf_fs (files fresh_host) \<and>
   exit_status (fst (create_test_dirs fresh_host)) = 0 \<and>
   path_isdir (files (snd (create_test_dirs fresh_host)))
     (os_path_join base_path [''src'', ''test'', ''java'', ''com'', ''hackathon'', ''app'', ''service'']) \<and>
   path_isdir (files (snd (create_test_dirs fresh_host))) [''C:'', ''Users'', ''anupa''] \<and>
   stat (files (snd (create_test_dirs fresh_host))) [] = Some (Dir True)"
proof -
  let ?run = "create_test_dirs fresh_host"
  have wf: "wf_fs (files fresh_host)" by code_simp
  have ok: "exit_status (fst ?run) = 0" by code_simp
  have run: "scaffold base_path test_directories test_summary fresh_host = (fst ?run, snd ?run) \<or>
      scaffold_try sample_str base_path test_directories test_summary fresh_host = (fst ?run, snd ?run)"
    by (simp add: create_test_dirs_def)
  note t = scaffold_creates_targets[OF wf run ok]
  have d: "[''src'', ''test'', ''java'', ''com'', ''hackathon'', ''app'', ''service''] \<in> set test_directories"
    by (simp add: test_directories_def)
  from t d have q: "\<And>q. prefix q (os_path_join base_path
        [''src'', ''test'', ''java'', ''com'', ''hackathon'', ''app'', ''service'']) \<Longrightarrow>
      path_isdir (files (snd ?run)) q"
    by blast
  have "prefix [''C:'', ''Users'', ''anupa''] (os_path_join base_path
        [''src'', ''test'', ''java'', ''com'', ''hackathon'', ''app'', ''service''])"
    by (simp add: os_path_join_def base_path_def)
  from q[OF this] q[OF prefix_order.order_refl] t wf ok show ?thesis
    by (simp add: fresh_host_def stat_def)
qed

text \<open>
  C2. Started on a well-formed tree, a second run of the scaffolder on the tree the first
  run left ends the way the first did and leaves that tree as it is, whether the first run
  succeeded or failed part of the way. A directory that exists is skipped: the library
  routine returns without an error and without a change.
\<close>

theorem scaffold_idempotent:
  assumes "wf_fs (files s)"
  shows "files (snd (scaffold base dirs summary (snd (scaffold base dirs summary s)))) =
           files (snd (scaffold base dirs summary s)) \<and>
         fst (scaffold base dirs summary (snd (scaffold base dirs summary s))) =
           fst (scaffold base dirs summary s) \<and>
         files (snd (scaffold_try str_of base dirs summary
                  (snd (scaffold_try str_of base dirs summary s)))) =
           files (snd (scaffold_try str_of base dirs summary s)) \<and>
         fst (scaffold_try str_of base dirs summary
                  (snd (scaffold_try str_of base dirs summary s))) =
           fst (scaffold_try str_of base dirs summary s) \<and>
         (\<forall>name. path_isdir (files s) name \<longrightarrow>
            makedirs name True (files s) = (None, files s))"
  using scaffold_again[OF assms] scaffold_try_again[OF assms] makedirs_noop[OF assms]
  by blast

text \<open>
  C2 on the host where \<^verbatim>\<open>/tmp/proj/src/b\<close> is a regular file (the first run fails there),
  and on \<^verbatim>\<open>create_structure.py\<close> started on the host that has only the root.
\<close>

theorem scaffold_idempotent_witness:
  "wf_fs (files occupied_host) \<and>
   files (snd (scaffold proj two_dirs ''done'' (snd (scaffold proj two_dirs ''done'' occupied_host)))) =
     files (snd (scaffold proj two_dirs ''done'' occupied_host)) \<and>
   files (snd (create_structure sample_str (snd (create_structure sample_str fresh_host)))) =
     files (snd (create_structure sample_str fresh_host)) \<and>
   makedirs [] True (files fresh_host) = (None, files fresh_host)"
proof -
  have wf1: "wf_fs (files occupied_host)" by code_simp
  have wf2: "wf_fs (files fresh_host)" by code_simp
  have root: "path_isdir (files fresh_host) []" by code_simp
  from scaffold_idempotent[OF wf1, where base = proj and dirs = two_dirs and summary = "''done''"]
    scaffold_idempotent[OF wf2, where str_of = sample_str and base = base_path
      and dirs = directories and summary = structure_summary] wf1 root
  show ?thesis
    by (simp add: create_structure_def)
qed

text \<open>
  C3. When the loop raises, \<^verbatim>\<open>create_structure.py\<close> catches the exception, prints
  the line \<^verbatim>\<open>Error: \<close> followed by the text of the exception, and ends in
  \<^verbatim>\<open>sys.exit(1)\<close>, with no traceback; \<^verbatim>\<open>create_dirs.py\<close> and
  \<^verbatim>\<open>create_test_dirs.py\<close> print nothing more and end in the exception itself, which the
  interpreter reports with a traceback and the status 1. The exception is always an
  \<^verbatim>\<open>OSError\<close>.
\<close>

theorem only_create_structure_catches:
  assumes "for_directories base_path directories s = (Some x, s1)"
    and "for_directories base_path test_directories t = (Some y, t1)"
  shows "create_structure str_of s = (Some (SystemExit 1), print (''Error: '' @ str_of x) s1) \<and>
         exit_status (fst (create_structure str_of s)) = 1 \<and>
         \<not> traceback (fst (create_structure str_of s)) \<and>
         create_dirs s = (Some x, s1) \<and> traceback (fst (create_dirs s)) \<and>
         exit_status (fst (create_dirs s)) = 1 \<and>
         create_test_dirs t = (Some y, t1) \<and> traceback (fst (create_test_dirs t)) \<and>
         exit_status (fst (create_test_dirs t)) = 1 \<and>
         (\<exists>e. x = OSError e) \<and> (\<exists>e. y = OSError e)"
proof -
  from for_directories_raises_OSError[OF assms(1)] obtain e where x: "x = OSError e" ..
  from for_directories_raises_OSError[OF assms(2)] obtain e' where y: "y = OSError e'" ..
  from assms x y show ?thesis
    by (simp add: create_structure_def create_dirs_def create_test_dirs_def scaffold_def
        scaffold_try_def try_body_def sys_exit_def)
qed

text \<open>
  C3 on the host where \<^verbatim>\<open>src\<close> in the project directory is a regular file.
\<close>

theorem only_create_structure_catches_witness:
  "create_structure sample_str src_file_host =
     (Some (SystemExit 1), print ''Error: cannot create the directory'' src_file_host) \<and>
   exit_status (fst (create_structure sample_str src_file_host)) = 1 \<and>
   \<not> traceback (fst (create_structure sample_str src_file_host)) \<and>
   create_dirs src_file_host =
     (Some (OSError (NotADirectoryError (os_path_join base_path [''src'', ''main'']))), src_file_host) \<and>
   traceback (fst (create_dirs src_file_host)) \<and>
   exit_status (fst (create_dirs src_file_host)) = 1 \<and>
   create_test_dirs src_file_host =
     (Some (OSError (NotADirectoryError (os_path_join base_path [''src'', ''test'']))), src_file_host) \<and>
   traceback (fst (create_test_dirs src_file_host))"
  using only_create_structure_catches[OF src_file_host_loops, of sample_str]
  by (simp add: sample_str_def)




text \<open>
  C5, as stated, fails: one line per path of the list is not what a failing run prints.
  On the base \<^verbatim>\<open>/tmp/proj\<close> with the entries \<^verbatim>\<open>src/a\<close> and \<^verbatim>\<open>src/b\<close>, where
  \<^verbatim>\<open>/tmp/proj/src/b\<close> is a regular file, the list has two paths and the run prints one
  \<^verbatim>\<open>Created: \<close> line.
\<close>

theorem one_line_per_path_counterexample:
  "take (length two_dirs) (stdout (snd (scaffold proj two_dirs ''done'' occupied_host))) \<noteq>
     map (created_line proj) two_dirs \<and>
   stdout (snd (scaffold proj two_dirs ''done'' occupied_host)) = [created_line proj [''src'', ''a'']] \<and>
   stdout (snd (scaffold_try sample_str proj two_dirs ''done'' occupied_host)) =
     [created_line proj [''src'', ''a''], ''Error: cannot create the directory''] \<and>
   length two_dirs = 2"
  by code_simp

text \<open>
  C5, amended. A run prints one \<^verbatim>\<open>Created: \<close> line for each entry it got through, in
  the order of the list. When every entry can be created, these are the lines of all
  entries, followed by the summary line. Otherwise let \<open>k\<close> be the first entry whose
  creation raises: the loop gets through the \<open>k\<close> entries before it, the lines are
  those of exactly these \<open>k\<close> entries, there is no summary line, and the catching script
  adds the \<^verbatim>\<open>Error: \<close> line with the text of that exception.
\<close>

theorem console_lines:
  "(case first_failure base dirs (files s) of
      None \<Rightarrow>
        fst (scaffold base dirs summary s) = None \<and>
        stdout (snd (scaffold base dirs summary s)) =
          stdout s @ map (created_line base) dirs @ [summary] \<and>
        fst (scaffold_try str_of base dirs summary s) = Some (SystemExit 0) \<and>
        stdout (snd (scaffold_try str_of base dirs summary s)) =
          stdout s @ map (created_line base) dirs @ [summary]
    | Some (k, e) \<Rightarrow>
        k < length dirs \<and>
        first_failure base (take k dirs) (files s) = None \<and>
        (\<exists>sk. for_directories base (take k dirs) s = (None, sk) \<and>
           fst (makedirs (os_path_join base (dirs ! k)) True (files sk)) = Some e) \<and>
        fst (scaffold base dirs summary s) = Some (OSError e) \<and>
        stdout (snd (scaffold base dirs summary s)) =
          stdout s @ map (created_line base) (take k dirs) \<and>
        fst (scaffold_try str_of base dirs summary s) = Some (SystemExit 1) \<and>
        stdout (snd (scaffold_try str_of base dirs summary s)) =
          stdout s @ map (created_line base) (take k dirs) @ [''Error: '' @ str_of (OSError e)])"
proof -
  obtain r s1 where loop: "for_directories base dirs s = (r, s1)"
    by (cases "for_directories base dirs s")
  note ff = for_directories_first_failure[OF loop]
  show ?thesis
  proof (cases "first_failure base dirs (files s)")
    case None
    with ff have r: "r = None" by simp
    from for_directories_success_stdout[OF loop[unfolded r]] loop r None show ?thesis
      by (simp add: scaffold_def scaffold_try_def try_body_def sys_exit_def)
  next
    case (Some ke)
    obtain k e where ke: "ke = (k, e)" by (cases ke)
    from ff Some ke have facts: "r = Some (OSError e)" "k < length dirs"
      "stdout s1 = stdout s @ map (created_line base) (take k dirs)"
      "first_failure base (take k dirs) (files s) = None"
      "\<exists>sk. for_directories base (take k dirs) s = (None, sk) \<and>
         fst (makedirs (os_path_join base (dirs ! k)) True (files sk)) = Some e"
      by simp_all
    with loop Some ke show ?thesis
      by (simp add: scaffold_def scaffold_try_def try_body_def sys_exit_def)
  qed
qed

text \<open>
  C5, amended, on the host where \<^verbatim>\<open>/tmp/proj/src/b\<close> is a regular file, with the entries
  \<^verbatim>\<open>src/a\<close>, \<^verbatim>\<open>src/c\<close> and \<^verbatim>\<open>src/b\<close> (two lines, then the failure at the third
  entry), and on \<^verbatim>\<open>create_test_dirs.py\<close> started on the host that has only the root.
\<close>

theorem console_lines_witness:
  "first_failure proj three_dirs (files occupied_host) =
     Some (2, FileExistsError [''tmp'', ''proj'', ''src'', ''b'']) \<and>
   stdout (snd (scaffold proj three_dirs ''done'' occupied_host)) =
     [created_line proj [''src'', ''a''], created_line proj [''src'', ''c'']] \<and>
   stdout (snd (scaffold_try sample_str proj three_dirs ''done'' occupied_host)) =
     [created_line proj [''src'', ''a''], created_line proj [''src'', ''c''],
      ''Error: cannot create the directory''] \<and>
   first_failure base_path test_directories (files fresh_host) = None \<and>
   stdout (snd (create_test_dirs fresh_host)) =
     map (created_line base_path) test_directories @ [test_summary]"
proof -
  from console_lines[where base = proj and dirs = three_dirs and s = occupied_host
      and summary = "''done''" and str_of = sample_str]
    occupied_host_failures(1)
  have a: "stdout (snd (scaffold proj three_dirs ''done'' occupied_host)) =
      [created_line proj [''src'', ''a''], created_line proj [''src'', ''c'']]"
    and b: "stdout (snd (scaffold_try sample_str proj three_dirs ''done'' occupied_host)) =
      [created_line proj [''src'', ''a''], created_line proj [''src'', ''c''],
       ''Error: cannot create the directory'']"
    by (simp_all add: three_dirs_def occupied_host_def sample_str_def)
  from console_lines[where base = base_path and dirs = test_directories and s = fresh_host
      and summary = test_summary and str_of = sample_str]
    occupied_host_failures(3)
  have c: "stdout (snd (create_test_dirs fresh_host)) =
      map (created_line base_path) test_directories @ [test_summary]"
    by (simp add: create_test_dirs_def fresh_host_def)
  from a b c occupied_host_failures(1,3) show ?thesis by simp
qed

text \<open>
  C6, as stated, fails: with an empty list the base path is not created. On the host
  that has only the root, \<^verbatim>\<open>/tmp/proj\<close> does not exist before the run, the run
  succeeds, and \<^verbatim>\<open>/tmp/proj\<close> does not exist after it.
\<close>

theorem base_not_created_counterexample:
  "\<not> path_exists (files fresh_host) proj \<and>
   fst (scaffold proj [] ''done'' fresh_host) = None \<and>
   \<not> path_exists (files (snd (scaffold proj [] ''done'' fresh_host))) proj \<and>
   fst (scaffold_try sample_str proj [] ''done'' fresh_host) = Some (SystemExit 0) \<and>
   \<not> path_exists (files (snd (scaffold_try sample_str proj [] ''done'' fresh_host))) proj"
  by code_simp

text \<open>
  C6, amended. With an empty list the run succeeds and changes nothing in the tree: it
  prints the summary line and ends, by falling off the end or by \<^verbatim>\<open>sys.exit(0)\<close>.
\<close>

theorem empty_list_changes_nothing:
  "scaffold base [] summary s = (None, print summary s) \<and>
   scaffold_try str_of base [] summary s = (Some (SystemExit 0), print summary s) \<and>
   files (print summary s) = files s"
  by (simp add: scaffold_def scaffold_try_def try_body_def sys_exit_def)

text \<open>
  C6, amended, on the base \<^verbatim>\<open>/tmp/proj\<close> and the host that has only the root.
\<close>

theorem empty_list_changes_nothing_witness:
  "scaffold proj [] ''done'' fresh_host = (None, print ''done'' fresh_host) \<and>
   scaffold_try sample_str proj [] ''done'' fresh_host =
     (Some (SystemExit 0), print ''done'' fresh_host) \<and>
   files (print ''done'' fresh_host) = [([], Dir True)]"
  using empty_list_changes_nothing[of proj "''done''" fresh_host sample_str]
  by (simp add: fresh_host_def)

text \<open>
  C7, as stated, fails: on a successful run of the three scripts the number of scripts
  that end in \<^verbatim>\<open>sys.exit\<close> is one, not two.
\<close>

theorem two_explicit_counterexample:
  "length (filter explicit_status
     [fst (create_dirs fresh_host), fst (create_structure sample_str fresh_host),
      fst (create_test_dirs fresh_host)]) \<noteq> 2 \<and>
   fst (create_dirs fresh_host) = None \<and>
   fst (create_structure sample_str fresh_host) = Some (SystemExit 0) \<and>
   fst (create_test_dirs fresh_host) = None"
  by (simp add: fresh_host_runs)

text \<open>
  C7, amended. On success \<^verbatim>\<open>create_structure.py\<close> ends in \<^verbatim>\<open>sys.exit(0)\<close>, and
  \<^verbatim>\<open>create_dirs.py\<close> and \<^verbatim>\<open>create_test_dirs.py\<close> fall off their end.
\<close>

theorem success_status_by_script:
  "(exit_status (fst (create_structure str_of s)) = 0 \<longrightarrow>
      fst (create_structure str_of s) = Some (SystemExit 0)) \<and>
   (exit_status (fst (create_dirs s)) = 0 \<longrightarrow> fst (create_dirs s) = None) \<and>
   (exit_status (fst (create_test_dirs s)) = 0 \<longrightarrow> fst (create_test_dirs s) = None)"
proof -
  have "fst (scaffold_try str_of base dirs summary s) = Some (SystemExit 0)"
    if "exit_status (fst (scaffold_try str_of base dirs summary s)) = 0" for base dirs summary
    using scaffold_try_success[OF surjective_pairing that] by blast
  moreover have "fst (scaffold base dirs summary s) = None"
    if "exit_status (fst (scaffold base dirs summary s)) = 0" for base dirs summary
    using scaffold_success[OF surjective_pairing that] by blast
  ultimately show ?thesis
    by (simp add: create_structure_def create_dirs_def create_test_dirs_def)
qed

text \<open>
  C7, amended, on the host that has only the root.
\<close>

theorem success_status_by_script_witness:
  "exit_status (fst (create_structure sample_str fresh_host)) = 0 \<and>
   fst (create_structure sample_str fresh_host) = Some (SystemExit 0) \<and>
   exit_status (fst (create_dirs fresh_host)) = 0 \<and>
   fst (create_dirs fresh_host) = None \<and>
   exit_status (fst (create_test_dirs fresh_host)) = 0 \<and>
   fst (create_test_dirs fresh_host) = None"
proof -
  have a: "exit_status (fst (create_structure sample_str fresh_host)) = 0"
    and b: "exit_status (fst (create_dirs fresh_host)) = 0"
    and c: "exit_status (fst (create_test_dirs fresh_host)) = 0"
    by (simp_all add: fresh_host_runs)
  from success_status_by_script[of sample_str fresh_host] a b c show ?thesis by simp
qed

text \<open>
  C8. Every run of \<^verbatim>\<open>create_structure.py\<close> goes one of two ways: it ends in
  \<^verbatim>\<open>sys.exit(0)\<close> with the summary as its last line and no \<^verbatim>\<open>Error: \<close> line printed,
  or it ends in \<^verbatim>\<open>sys.exit(1)\<close> with an \<^verbatim>\<open>Error: \<close> line as its last line and no
  summary printed. \<^verbatim>\<open>SystemExit\<close> is not an \<^verbatim>\<open>Exception\<close>: when the body of the
  \<^verbatim>\<open>try\<close> ends in \<^verbatim>\<open>sys.exit(0)\<close>, so does the script.
\<close>

theorem create_structure_two_ways:
  "((fst (create_structure str_of s) = Some (SystemExit 0) \<and>
     exit_status (fst (create_structure str_of s)) = 0 \<and>
     last (stdout (snd (create_structure str_of s))) = structure_summary \<and>
     structure_summary \<in> set (printed s (snd (create_structure str_of s))) \<and>
     \<not> list_ex error_line (printed s (snd (create_structure str_of s)))) \<or>
    (fst (create_structure str_of s) = Some (SystemExit 1) \<and>
     exit_status (fst (create_structure str_of s)) = 1 \<and>
     error_line (last (stdout (snd (create_structure str_of s)))) \<and>
     list_ex error_line (printed s (snd (create_structure str_of s))) \<and>
     structure_summary \<notin> set (printed s (snd (create_structure str_of s))))) \<and>
   \<not> isinstance_Exception (SystemExit 0) \<and>
   (\<forall>u. try_body base_path directories structure_summary s = (Some (SystemExit 0), u) \<longrightarrow>
      create_structure str_of s = (Some (SystemExit 0), u))"
proof -
  have pass: "\<forall>u. try_body base_path directories structure_summary s = (Some (SystemExit 0), u) \<longrightarrow>
      create_structure str_of s = (Some (SystemExit 0), u)"
    by (simp add: create_structure_def scaffold_try_def)
  obtain r s1 where loop: "for_directories base_path directories s = (r, s1)"
    by (cases "for_directories base_path directories s")
  show ?thesis
  proof (cases r)
    case None
    from for_directories_success_stdout[OF loop[unfolded None]]
    have out: "stdout s1 = stdout s @ map (created_line base_path) directories" .
    from loop None have run: "create_structure str_of s =
        (Some (SystemExit 0), print structure_summary s1)"
      by (simp add: create_structure_def scaffold_try_def try_body_def sys_exit_def)
    from out have "printed s (print structure_summary s1) =
        map (created_line base_path) directories @ [structure_summary]"
      by (intro printed_append) simp
    with run pass show ?thesis
      by (simp add: list_ex_iff created_line_plain summary_plain image_iff)
  next
    case (Some x)
    from for_directories_failure[OF loop[unfolded Some]] obtain k sk e
      where before: "for_directories base_path (take k directories) s = (None, sk)"
        and x: "x = OSError e" and s1: "s1 = sk\<lparr>files := files s1\<rparr>"
      by blast
    from s1 have "stdout s1 = stdout sk"
      by (metis process.select_convs(2) process.surjective process.update_convs(1))
    with for_directories_success_stdout[OF before]
    have out: "stdout s1 = stdout s @ map (created_line base_path) (take k directories)" by simp
    from loop Some x have run: "create_structure str_of s =
        (Some (SystemExit 1), print (''Error: '' @ str_of x) s1)"
      by (simp add: create_structure_def scaffold_try_def try_body_def sys_exit_def)
    from out have "printed s (print (''Error: '' @ str_of x) s1) =
        map (created_line base_path) (take k directories) @ [''Error: '' @ str_of x]"
      by (intro printed_append) simp
    with run pass show ?thesis
      by (simp add: list_ex_iff created_line_def error_line_def structure_summary_def image_iff)
  qed
qed

text \<open>
  C8 on the host that has only the root (success) and on the host where \<^verbatim>\<open>src\<close> is a
  regular file (failure).
\<close>

theorem create_structure_two_ways_witness:
  "fst (create_structure sample_str fresh_host) = Some (SystemExit 0) \<and>
   last (stdout (snd (create_structure sample_str fresh_host))) = structure_summary \<and>
   \<not> list_ex error_line (printed fresh_host (snd (create_structure sample_str fresh_host))) \<and>
   fst (create_structure sample_str src_file_host) = Some (SystemExit 1) \<and>
   error_line (last (stdout (snd (create_structure sample_str src_file_host)))) \<and>
   structure_summary \<notin> set (printed src_file_host (snd (create_structure sample_str src_file_host)))"
proof -
  have f: "fst (create_structure sample_str src_file_host) = Some (SystemExit 1)"
    using src_file_host_loops(1)
    by (simp add: create_structure_def scaffold_try_def try_body_def sys_exit_def)
  from create_structure_two_ways[of sample_str fresh_host] fresh_host_runs(2)
    create_structure_two_ways[of sample_str src_file_host] f
  show ?thesis by simp
qed

text \<open>
  C9. Let the loop, started on a well-formed tree, get through the first \<open>i\<close> entries
  and let the creation of entry \<open>i\<close> raise. Then the run ends there: the propagating
  scripts end in that exception and the catching script in \<^verbatim>\<open>sys.exit(1)\<close> after the
  \<^verbatim>\<open>Error: \<close> line; the lines printed before are the \<^verbatim>\<open>Created: \<close> lines of the first
  \<open>i\<close> entries and nothing else, so no summary; every entry of the final tree was there
  at the start or lies on the way to one of the first \<open>i\<close> entries; and the entries after
  \<open>i\<close> play no part, since any other tail of the list gives the same outcome.
\<close>

theorem first_failure_stops_loop:
  assumes "wf_fs (files s)" and "i < length dirs"
    and "for_directories base (take i dirs) s = (None, si)"
    and "makedirs (os_path_join base (dirs ! i)) True (files si) = (Some e, fs')"
  shows "scaffold base dirs summary s = (Some (OSError e), si) \<and>
         scaffold_try str_of base dirs summary s =
           (Some (SystemExit 1), print (''Error: '' @ str_of (OSError e)) si) \<and>
         stdout si = stdout s @ map (created_line base) (take i dirs) \<and>
         (\<forall>p n. stat (files si) p = Some n \<longrightarrow>
            stat (files s) p = Some n \<or> (\<exists>k<i. prefix p (os_path_join base (dirs ! k)))) \<and>
         (\<forall>later. scaffold base (take (Suc i) dirs @ later) summary s =
                     scaffold base dirs summary s \<and>
                   scaffold_try str_of base (take (Suc i) dirs @ later) summary s =
                     scaffold_try str_of base dirs summary s)"
proof -
  from for_directories_wf[OF assms(3,1)] have wf: "wf_fs (files si)" .
  from makedirs_fail_unchanged[OF assms(4) wf] have same: "fs' = files si" .
  from for_directories_fails_at[OF assms(2,3,4)] same
  have loop: "for_directories base dirs s = (Some (OSError e), si)" by simp
  have loop': "for_directories base (take (Suc i) dirs @ later) s = (Some (OSError e), si)" for later
  proof -
    let ?ds = "take (Suc i) dirs @ later"
    from assms(2) have m: "min (length dirs) (Suc i) = Suc i" by simp
    have a: "i < length ?ds" and tk: "take i ?ds = take i dirs" and nth: "?ds ! i = dirs ! i"
      by (simp_all add: nth_append m)
    have b: "for_directories base (take i ?ds) s = (None, si)"
      using assms(3) by (simp only: tk)
    have c: "makedirs (os_path_join base (?ds ! i)) True (files si) = (Some e, fs')"
      using assms(4) by (simp only: nth)
    from for_directories_fails_at[OF a b c] same show ?thesis by simp
  qed
  have frame: "stat (files s) p = Some n \<or> (\<exists>k<i. prefix p (os_path_join base (dirs ! k)))"
    if "stat (files si) p = Some n" for p n
    using for_directories_frame[OF assms(3) that]
  proof
    assume "n = Dir True \<and> stat (files s) p = None \<and>
      (\<exists>d\<in>set (take i dirs). prefix p (os_path_join base d))"
    then obtain d where d: "d \<in> set (take i dirs)" and p: "prefix p (os_path_join base d)"
      by blast
    from d obtain k where "k < length (take i dirs)" "take i dirs ! k = d"
      by (auto simp: in_set_conv_nth)
    with p have "k < i \<and> prefix p (os_path_join base (dirs ! k))" by simp
    then show ?thesis by blast
  qed simp
  from loop loop' for_directories_success_stdout[OF assms(3)] frame show ?thesis
    by (simp add: scaffold_def scaffold_try_def try_body_def sys_exit_def)
qed

text \<open>
  C9 on the base \<^verbatim>\<open>/tmp/proj\<close> with the entries \<^verbatim>\<open>src/a\<close> and \<^verbatim>\<open>src/b\<close>, where
  \<^verbatim>\<open>/tmp/proj/src/b\<close> is a regular file: the run stops at the second entry, and a third
  entry \<^verbatim>\<open>docs\<close> changes nothing.
\<close>

theorem first_failure_stops_loop_witness:
  "scaffold proj two_dirs ''done'' occupied_host =
     (Some (OSError (FileExistsError [''tmp'', ''proj'', ''src'', ''b''])),
      snd (for_directories proj (take 1 two_dirs) occupied_host)) \<and>
   stdout (snd (scaffold proj two_dirs ''done'' occupied_host)) = [created_line proj [''src'', ''a'']] \<and>
   scaffold proj (take 2 two_dirs @ [[''docs'']]) ''done'' occupied_host =
     scaffold proj two_dirs ''done'' occupied_host"
proof -
  let ?si = "snd (for_directories proj (take 1 two_dirs) occupied_host)"
  let ?target = "os_path_join proj (two_dirs ! 1)"
  have i: "1 < length two_dirs" by (simp add: two_dirs_def)
  have before: "for_directories proj (take 1 two_dirs) occupied_host = (None, ?si)"
    using occupied_host_facts(3) by (simp add: prod_eq_iff)
  have "fst (makedirs ?target True (files ?si)) = Some (FileExistsError [''tmp'', ''proj'', ''src'', ''b''])"
    by code_simp
  then have mk: "makedirs ?target True (files ?si) =
      (Some (FileExistsError [''tmp'', ''proj'', ''src'', ''b'']), snd (makedirs ?target True (files ?si)))"
    by (simp add: prod_eq_iff)
  note t = first_failure_stops_loop[OF occupied_host_facts(1) i before mk,
      where summary = "''done''" and str_of = sample_str]
  from t have "scaffold proj (take (Suc 1) two_dirs @ [[''docs'']]) ''done'' occupied_host =
      scaffold proj two_dirs ''done'' occupied_host"
    by blast
  with t show ?thesis
    by (simp add: two_dirs_def occupied_host_def numeral_2_eq_2)
qed

end
